theory Spec2Isabelle
  imports Complex_Main "HOL-Library.Word" "HOL-Library.Signed_Division"
begin

unbundle bit_operations_syntax

section \<open>Data model\<close>

text \<open>
  Token indices, stack sizes and address offsets are Go \<open>uint\<close> values. The code only
  compares them, indexes with them and subtracts under a guard, so they are modelled as
  \<open>nat\<close>. A Go run-time panic is a value of type \<open>panic\<close>; a returned \<open>error\<close> is a
  value of type \<open>error\<close> carrying its message.
\<close>

datatype panic = IndexOutOfRange | NilDereference | DivideByZero | Panic string

datatype error = Error string

record Dependency =
  Head :: nat
  Relation :: string
  Dependent :: nat

text \<open>
  The configuration, with the fields that the transition system, the oracle and the
  address resolution read and write: \<open>Tokens\<close>, \<open>Tags\<close>, \<open>Features\<close> (a nil pointer is
  \<open>None\<close>), \<open>Stack\<close> (top is the last element) and \<open>Buffer\<close> (front is the first element).
  Modelled from the spec: the field \<open>Arcs\<close>, the set of dependencies added so far, which
  the struct declaration (not part of the sources at hand) keeps behind \<open>AddDependency\<close>
  and \<open>Dependencies\<close>.
\<close>

record Configuration =
  Tokens :: "string list"
  Tags :: "string list"
  Features :: "(string \<rightharpoonup> string) option list"
  Stack :: "nat list"
  Buffer :: "nat list"
  Arcs :: "Dependency set"

text \<open>
  Modelled from the spec: \<open>AddDependency\<close> inserts the dependency into the arc set, and
  \<open>Dependencies\<close> returns the accumulated set. Both methods are declared with the
  configuration, outside the sources at hand.
\<close>

definition AddDependency :: "Configuration \<Rightarrow> Dependency \<Rightarrow> Configuration" where
  "AddDependency c d = c\<lparr>Arcs := insert d (Arcs c)\<rparr>"

definition Dependencies :: "Configuration \<Rightarrow> Dependency set" where
  "Dependencies c = Arcs c"

section \<open>The arc-standard transition system\<close>

text \<open>The three transition structs of \<open>parser.go\<close>.\<close>

datatype as_transition = asShift | asLeftArc string | asRightArc string

text \<open>
  The \<open>Transition\<close> interface as the serializer sees it: one of the three structs above,
  or a value of some other implementing type (named by its Go type, as \<open>%T\<close> prints it).
\<close>

datatype Transition = ArcStandardTransition as_transition | OtherTransition string

fun IsPossible :: "as_transition \<Rightarrow> Configuration \<Rightarrow> bool" where
  "IsPossible (asLeftArc relation) c =
     (let stackSize = length (Stack c)
      in length (Stack c) \<noteq> 0 \<and> length (Buffer c) \<noteq> 0 \<and> Stack c ! (stackSize - 1) \<noteq> 0)"
| "IsPossible (asRightArc relation) c = (length (Stack c) \<noteq> 0 \<and> length (Buffer c) \<noteq> 0)"
| "IsPossible asShift c = (length (Buffer c) \<noteq> 0)"

text \<open>
  \<open>Apply\<close> mutates the configuration; the model returns the new one. Reading
  \<open>c.Buffer[0]\<close> of an empty buffer or \<open>c.Stack[stackSize-1]\<close> of an empty stack panics.
\<close>

fun Apply :: "as_transition \<Rightarrow> Configuration \<Rightarrow> panic + Configuration" where
  "Apply (asLeftArc relation) c =
     (let stackSize = length (Stack c)
      in if length (Buffer c) = 0 then Inl IndexOutOfRange
         else if stackSize = 0 then Inl IndexOutOfRange
         else
           let head = Buffer c ! 0;
               dependant = Stack c ! (stackSize - 1);
               dependency = \<lparr>Head = head, Relation = relation, Dependent = dependant\<rparr>;
               c1 = AddDependency c dependency
           in Inr (c1\<lparr>Stack := take (stackSize - 1) (Stack c1)\<rparr>))"
| "Apply (asRightArc relation) c =
     (let stackSize = length (Stack c)
      in if length (Buffer c) = 0 then Inl IndexOutOfRange
         else if stackSize = 0 then Inl IndexOutOfRange
         else
           let dependant = Buffer c ! 0;
               head = Stack c ! (stackSize - 1);
               dependency = \<lparr>Head = head, Relation = relation, Dependent = dependant\<rparr>;
               c1 = AddDependency c dependency;
               c2 = c1\<lparr>Stack := take (stackSize - 1) (Stack c1)\<rparr>
           in Inr (c2\<lparr>Buffer := (Buffer c2)[0 := head]\<rparr>))"
| "Apply asShift c =
     (if length (Buffer c) = 0 then Inl IndexOutOfRange
      else
        let token = Buffer c ! 0;
            c1 = c\<lparr>Buffer := drop 1 (Buffer c)\<rparr>
        in Inr (c1\<lparr>Stack := Stack c1 @ [token]\<rparr>))"

definition archetypeTransitions :: "as_transition set" where
  "archetypeTransitions =
     {asShift, asLeftArc ''<archetype>'', asRightArc ''<archetype>''}"

definition IsTerminal :: "Configuration \<Rightarrow> bool" where
  "IsTerminal c = (length (Buffer c) = 0)"

definition PossibleTransitions :: "Configuration \<Rightarrow> as_transition set" where
  "PossibleTransitions configuration =
     Set.filter (\<lambda>trans. IsPossible trans configuration) archetypeTransitions"

subsection \<open>Textual form of transitions\<close>

definition SerializeTransition :: "Transition \<Rightarrow> error + string" where
  "SerializeTransition t =
     (case t of
        ArcStandardTransition (asLeftArc relation) \<Rightarrow> Inr (''LEFT_ARC '' @ relation)
      | ArcStandardTransition (asRightArc relation) \<Rightarrow> Inr (''RIGHT_ARC '' @ relation)
      | ArcStandardTransition asShift \<Rightarrow> Inr ''SHIFT''
      | OtherTransition ty \<Rightarrow>
          Inl (Error (''Not a transition of the arc standard system: '' @ ty)))"

text \<open>
  \<open>strings.SplitN(s, " ", 2)\<close>: the string cut at its first space, or the string alone
  when it has none. The result is never empty.
\<close>

definition SplitN2 :: "string \<Rightarrow> string list" where
  "SplitN2 s =
     (if CHR '' '' \<in> set s
      then [takeWhile (\<lambda>ch. ch \<noteq> CHR '' '') s, tl (dropWhile (\<lambda>ch. ch \<noteq> CHR '' '') s)]
      else [s])"

definition DeserializeTransition :: "string \<Rightarrow> error + Transition" where
  "DeserializeTransition transString =
     (let parts = SplitN2 transString
      in if length parts = 0 then Inl (Error ''Empty transition'')
         else if parts ! 0 = ''LEFT_ARC'' then
           (if length parts = 1
            then Inl (Error ''Left-Arc transition requires label argument'')
            else Inr (ArcStandardTransition (asLeftArc (parts ! 1))))
         else if parts ! 0 = ''RIGHT_ARC'' then
           (if length parts = 1
            then Inl (Error ''Right-Arc transition requires label argument'')
            else Inr (ArcStandardTransition (asRightArc (parts ! 1))))
         else if parts ! 0 = ''SHIFT'' then Inr (ArcStandardTransition asShift)
         else Inl (Error (''Unknown transition: '' @ parts ! 0)))"

section \<open>The static oracle\<close>

text \<open>
  \<open>dependentHeadMapping\<close> is a Go map from a dependent to its gold dependency. Indexing
  it with a missing key gives the zero \<open>Dependency\<close>.
\<close>

definition zeroDependency :: Dependency where
  "zeroDependency = \<lparr>Head = 0, Relation = [], Dependent = 0\<rparr>"

definition mapIndex :: "(nat \<rightharpoonup> Dependency) \<Rightarrow> nat \<Rightarrow> Dependency" where
  "mapIndex dependentHeadMapping k =
     (case dependentHeadMapping k of None \<Rightarrow> zeroDependency | Some d \<Rightarrow> d)"

text \<open>The loop of \<open>neededForAttachment\<close> over the buffer, with its early return.\<close>

fun neededForAttachmentLoop :: "(nat \<rightharpoonup> Dependency) \<Rightarrow> nat list \<Rightarrow> nat \<Rightarrow> bool" where
  "neededForAttachmentLoop dependentHeadMapping [] token = False"
| "neededForAttachmentLoop dependentHeadMapping (bufToken # rest) token =
     (if Head (mapIndex dependentHeadMapping bufToken) = token then True
      else neededForAttachmentLoop dependentHeadMapping rest token)"

definition neededForAttachment ::
  "(nat \<rightharpoonup> Dependency) \<Rightarrow> Configuration \<Rightarrow> nat \<Rightarrow> bool" where
  "neededForAttachment dependentHeadMapping c token =
     neededForAttachmentLoop dependentHeadMapping (Buffer c) token"

text \<open>
  \<open>ArcStandardOracle.BestTransition\<close>. With a non-empty stack it reads \<open>c.Buffer[0]\<close>
  before any legality check, which panics on an empty buffer.
\<close>

definition ArcStandardOracle_BestTransition ::
  "(nat \<rightharpoonup> Dependency) \<Rightarrow> Configuration \<Rightarrow> panic + as_transition" where
  "ArcStandardOracle_BestTransition dependentHeadMapping c =
     (let stackSize = length (Stack c)
      in if stackSize \<noteq> 0 then
           (if length (Buffer c) = 0 then Inl IndexOutOfRange
            else
              let stackTip = Stack c ! (stackSize - 1);
                  bufferHead = Buffer c ! 0;
                  la = asLeftArc (Relation (mapIndex dependentHeadMapping stackTip))
              in if IsPossible la c \<and> Head (mapIndex dependentHeadMapping stackTip) = bufferHead
                 then Inr la
                 else
                   let ra = asRightArc (Relation (mapIndex dependentHeadMapping bufferHead))
                   in if IsPossible ra c
                         \<and> Head (mapIndex dependentHeadMapping bufferHead) = stackTip
                         \<and> \<not> neededForAttachment dependentHeadMapping c bufferHead
                      then Inr ra
                      else Inr asShift)
         else Inr asShift)"

section \<open>The greedy parser\<close>

text \<open>
  A guide maps a configuration to a transition; it may panic, and it may return the nil
  interface value (\<open>None\<close>), on which the call of \<open>Apply\<close> panics.
\<close>

type_synonym Guide = "Configuration \<Rightarrow> panic + as_transition option"

text \<open>The oracle as a guide (\<open>NewArcStandardOracle\<close> returns it as one).\<close>

definition oracleGuide :: "(nat \<rightharpoonup> Dependency) \<Rightarrow> Guide" where
  "oracleGuide dependentHeadMapping c =
     (case ArcStandardOracle_BestTransition dependentHeadMapping c of
        Inl p \<Rightarrow> Inl p
      | Inr t \<Rightarrow> Inr (Some t))"

definition measure_of :: "Configuration \<Rightarrow> nat" where
  "measure_of c = 2 * length (Buffer c) + length (Stack c)"

text \<open>
  The \<open>for\<close> loop of \<open>parseConfiguration\<close>. The last argument counts the transitions
  applied so far; the source has no such counter, it is carried along to state how many
  iterations a run takes and does not influence the run.
\<close>

function parseLoop :: "Guide \<Rightarrow> Configuration \<Rightarrow> nat \<Rightarrow> panic + (Configuration \<times> nat)" where
  "parseLoop guide c n =
     (if \<not> IsTerminal c then
        (case guide c of
           Inl p \<Rightarrow> Inl p
         | Inr None \<Rightarrow> Inl NilDereference
         | Inr (Some t) \<Rightarrow>
             (case Apply t c of
                Inl p \<Rightarrow> Inl p
              | Inr c' \<Rightarrow> parseLoop guide c' (Suc n)))
      else Inr (c, n))"
  by pat_completeness auto
termination
proof (relation "measure (\<lambda>(guide, c, n). measure_of c)")
  show "wf (measure (\<lambda>(guide, c, n). measure_of c))"
    by simp
next
  fix guide :: Guide and c c' :: Configuration and n :: nat and r t
  assume "\<not> IsTerminal c" and "Apply t c = Inr c'"
  then have "measure_of c' < measure_of c"
    by (cases t; cases "Buffer c")
       (auto simp: measure_of_def IsTerminal_def AddDependency_def Let_def split: if_splits)
  then show "((guide, c', Suc n), (guide, c, n)) \<in> measure (\<lambda>(guide, c, n). measure_of c)"
    by simp
qed

declare parseLoop.simps [simp del]

definition parseConfiguration :: "Guide \<Rightarrow> Configuration \<Rightarrow> panic + Dependency set" where
  "parseConfiguration guide c =
     (case parseLoop guide c 0 of
        Inl p \<Rightarrow> Inl p
      | Inr (c', n) \<Rightarrow> Inr (Dependencies c'))"

section \<open>Addressed values\<close>

text \<open>
  \<open>Source\<close> and \<open>Layer\<close> are Go \<open>int\<close> types whose constants are numbered by \<open>iota\<close>;
  any other integer is a value of the type too, and reaches the \<open>default\<close> branches.
\<close>

type_synonym Source = int

abbreviation (input) STACK :: Source where "STACK \<equiv> 0"
abbreviation (input) BUFFER :: Source where "BUFFER \<equiv> 1"
abbreviation (input) LDEP :: Source where "LDEP \<equiv> 2"
abbreviation (input) RDEP :: Source where "RDEP \<equiv> 3"

type_synonym Layer = int

abbreviation (input) TOKEN :: Layer where "TOKEN \<equiv> 0"
abbreviation (input) TAG :: Layer where "TAG \<equiv> 1"
abbreviation (input) DEPREL :: Layer where "DEPREL \<equiv> 2"
abbreviation (input) FEATURE :: Layer where "FEATURE \<equiv> 3"

record AddressComponent =
  Source :: Source
  Index :: nat

record AddressedValue =
  Address :: "AddressComponent list"
  Layer :: Layer
  LayerArg :: string
  Value :: string

text \<open>
  The queries of the configuration that \<open>Get\<close> calls and that are declared with the
  configuration, outside the sources at hand. They are parameters of the model:
  \<open>LeftmostDependent\<close> and \<open>RightmostDependent\<close> return a token or not ok (\<open>None\<close>),
  \<open>HeadOf\<close> (the method \<open>Head\<close>) returns the dependency of which the token is the
  dependent, or not ok.
\<close>

record ConfigurationQueries =
  LeftmostDependent :: "Configuration \<Rightarrow> nat \<Rightarrow> nat \<Rightarrow> nat option"
  RightmostDependent :: "Configuration \<Rightarrow> nat \<Rightarrow> nat \<Rightarrow> nat option"
  HeadOf :: "Configuration \<Rightarrow> nat \<Rightarrow> Dependency option"

text \<open>
  The loop of \<open>Get\<close> over the address: \<open>idx\<close> is the position of the component,
  \<open>token\<close> the current token. \<open>Inr None\<close> is the early return \<open>("", false)\<close>.
\<close>

fun resolveAddress ::
  "ConfigurationQueries \<Rightarrow> Configuration \<Rightarrow> nat \<Rightarrow> nat \<Rightarrow> AddressComponent list
   \<Rightarrow> panic + nat option" where
  "resolveAddress q c idx token [] = Inr (Some token)"
| "resolveAddress q c idx token (component # rest) =
     (if Source component = STACK then
        (let stackSize = length (Stack c)
         in if stackSize \<le> Index component then Inr None
            else resolveAddress q c (Suc idx) (Stack c ! (stackSize - Index component - 1)) rest)
      else if Source component = BUFFER then
        (if length (Buffer c) \<le> Index component then Inr None
         else resolveAddress q c (Suc idx) (Buffer c ! Index component) rest)
      else if Source component = LDEP then
        (if idx = 0 then Inl (Panic ''LDEP cannot be an initial address component'')
         else
           (case LeftmostDependent q c token (Index component) of
              None \<Rightarrow> Inr None
            | Some token' \<Rightarrow> resolveAddress q c (Suc idx) token' rest))
      else if Source component = RDEP then
        (if idx = 0 then Inl (Panic ''RDEP cannot be an initial address component'')
         else
           (case RightmostDependent q c token (Index component) of
              None \<Rightarrow> Inr None
            | Some token' \<Rightarrow> resolveAddress q c (Suc idx) token' rest))
      else Inl (Panic ''Source unimplemented''))"

text \<open>
  \<open>Get\<close> returns a string and the flag \<open>ok\<close>. The variable \<open>token\<close> starts at 0; indexing
  \<open>Tokens\<close>, \<open>Tags\<close> or \<open>Features\<close> beyond their length panics.
\<close>

definition Get ::
  "ConfigurationQueries \<Rightarrow> AddressedValue \<Rightarrow> Configuration \<Rightarrow> panic + (string \<times> bool)" where
  "Get q a c =
     (case resolveAddress q c 0 0 (Address a) of
        Inl p \<Rightarrow> Inl p
      | Inr None \<Rightarrow> Inr ([], False)
      | Inr (Some token) \<Rightarrow>
          (if Layer a = TOKEN then
             (if token < length (Tokens c) then Inr (Tokens c ! token, True)
              else Inl IndexOutOfRange)
           else if Layer a = TAG then
             (if token < length (Tags c) then Inr (Tags c ! token, True)
              else Inl IndexOutOfRange)
           else if Layer a = DEPREL then
             (case HeadOf q c token of
                Some depRel \<Rightarrow> Inr (Relation depRel, True)
              | None \<Rightarrow> Inr ([], False))
           else if Layer a = FEATURE then
             (if token < length (Features c) then
                (case Features c ! token of
                   None \<Rightarrow> Inr ([], False)
                 | Some featuresMap \<Rightarrow>
                     (case featuresMap (LayerArg a) of
                        Some val \<Rightarrow> Inr (val, True)
                      | None \<Rightarrow> Inr ([], False)))
              else Inl IndexOutOfRange)
           else Inl (Panic ''Layer not implemented.'')))"

subsection \<open>Hashing an addressed value\<close>

text \<open>
  \<open>binary.LittleEndian.PutUint64\<close> fills the eight bytes of \<open>buf\<close>, lowest byte first;
  \<open>[]byte(s)\<close> is the bytes of a string.
\<close>

definition PutUint64 :: "64 word \<Rightarrow> 8 word list" where
  "PutUint64 v = map (\<lambda>i. ucast (drop_bit (8 * i) v)) [0..<8]"

definition bytes :: "string \<Rightarrow> 8 word list" where
  "bytes s = map of_char s"

text \<open>
  \<open>appendHash\<close> feeds a \<open>hash.Hash\<close>. The hash is a parameter: a state \<open>hash\<close> and its
  method \<open>Write\<close>, which takes the bytes written and returns the new state.
\<close>

definition appendHash :: "('h \<Rightarrow> 8 word list \<Rightarrow> 'h) \<Rightarrow> 'h \<Rightarrow> AddressedValue \<Rightarrow> 'h" where
  "appendHash Write hash a =
     (let hash1 =
            foldl (\<lambda>h component.
                     let h' = Write h (PutUint64 (word_of_int (Source component)))
                     in Write h' (PutUint64 (word_of_nat (Index component))))
                  hash (Address a);
          buf = PutUint64 (word_of_int (Layer a));
          hash2 = (if Layer a = FEATURE then Write hash1 (bytes (LayerArg a)) else hash1);
          hash3 = Write hash2 buf
      in Write hash3 (bytes (Value a)))"

text \<open>
  The order of writes as the specification words it: the address components, the layer
  tag, the feature argument when the layer is \<open>FEATURE\<close>, the value. It is compared with
  \<open>appendHash\<close> below.
\<close>

definition appendHash_spec_order :: "AddressedValue \<Rightarrow> 8 word list list" where
  "appendHash_spec_order a =
     concat (map (\<lambda>component.
                    [PutUint64 (word_of_int (Source component)),
                     PutUint64 (word_of_nat (Index component))]) (Address a))
     @ [PutUint64 (word_of_int (Layer a))]
     @ (if Layer a = FEATURE then [bytes (LayerArg a)] else [])
     @ [bytes (Value a)]"

text \<open>The order in which \<open>appendHash\<close> makes its writes, as shown below.\<close>

definition appendHash_writes :: "AddressedValue \<Rightarrow> 8 word list list" where
  "appendHash_writes a =
     concat (map (\<lambda>component.
                    [PutUint64 (word_of_int (Source component)),
                     PutUint64 (word_of_nat (Index component))]) (Address a))
     @ (if Layer a = FEATURE then [bytes (LayerArg a)] else [])
     @ [PutUint64 (word_of_int (Layer a))]
     @ [bytes (Value a)]"

section \<open>The hashing guide\<close>

text \<open>
  A \<open>golinear.FeatureValue\<close>: the index is a Go \<open>int\<close> (64 bits wide, as the constant
  \<open>0x80000000\<close> in an \<open>int\<close> expression requires), the value a \<open>float64\<close>. The value is
  only multiplied by 1 or -1, which is exact, so it is modelled as a real number.
\<close>

record FeatureValue =
  fvIndex :: "64 word"
  fvValue :: real

text \<open>
  Go's \<open>%\<close> on \<open>int\<close>: the remainder of the division that truncates towards zero, read on
  the signed values. A zero divisor panics and is checked by the caller.
\<close>

definition int_rem :: "64 word \<Rightarrow> 64 word \<Rightarrow> 64 word" where
  "int_rem a b = word_of_int (sint a smod sint b)"

text \<open>
  The body of the loop that bounds the features. \<open>maxFeatures\<close> is a \<open>uint\<close>; the
  conversion \<open>int(g.maxFeatures)\<close> keeps its 64 bits.
\<close>

definition boundFeature :: "64 word \<Rightarrow> FeatureValue \<Rightarrow> panic + FeatureValue" where
  "boundFeature maxFeatures fv =
     (let hash = fvIndex fv;
          sign = (if hash AND 0x80000000 = 0x80000000 then - 1 else 1)
      in if maxFeatures = 0 then Inl DivideByZero
         else Inr \<lparr>fvIndex = int_rem (hash AND 0x7fffffff) maxFeatures + 1,
                   fvValue = fvValue fv * sign\<rparr>)"

fun boundFeatures :: "64 word \<Rightarrow> FeatureValue list \<Rightarrow> panic + FeatureValue list" where
  "boundFeatures maxFeatures [] = Inr []"
| "boundFeatures maxFeatures (fv # rest) =
     (case boundFeature maxFeatures fv of
        Inl p \<Rightarrow> Inl p
      | Inr fv' \<Rightarrow>
          (case boundFeatures maxFeatures rest of
             Inl p \<Rightarrow> Inl p
           | Inr rest' \<Rightarrow> Inr (fv' # rest')))"

text \<open>
  Decision values are \<open>float64\<close>; the model takes them from any linear order, which
  leaves out NaN. \<open>bestValue\<close> starts at \<open>math.Inf(-1)\<close>, modelled as \<open>None\<close>: no value is
  below it.
\<close>

definition below :: "'v::linorder \<Rightarrow> 'v option \<Rightarrow> bool" where
  "below v bestValue = (case bestValue of None \<Rightarrow> False | Some b \<Rightarrow> v < b)"

text \<open>
  The loop that selects the label: \<open>idx\<close> is the position in \<open>values\<close>, \<open>bestLabel\<close>
  starts as the nil interface value (\<open>None\<close>). \<open>Label\<close> is the method of the label
  numberer, \<open>labels\<close> the slice \<open>g.model.Labels()\<close>.
\<close>

fun selectLoop ::
  "(int \<Rightarrow> as_transition) \<Rightarrow> int list \<Rightarrow> Configuration \<Rightarrow> nat \<Rightarrow> ('v::linorder) list
   \<Rightarrow> 'v option \<Rightarrow> as_transition option \<Rightarrow> panic + as_transition option" where
  "selectLoop Label labels configuration idx [] bestValue bestLabel = Inr bestLabel"
| "selectLoop Label labels configuration idx (v # rest) bestValue bestLabel =
     (if below v bestValue
      then selectLoop Label labels configuration (Suc idx) rest bestValue bestLabel
      else if length labels \<le> idx then Inl IndexOutOfRange
      else
        let numLabel = labels ! idx;
            label = Label numLabel
        in if \<not> IsPossible label configuration
           then selectLoop Label labels configuration (Suc idx) rest bestValue bestLabel
           else selectLoop Label labels configuration (Suc idx) rest (Some v) (Some label))"

text \<open>
  The guide: its feature generator with the hash function (\<open>GenerateHashed\<close>, giving the
  built vector), the model (\<open>PredictDecisionValuesSlice\<close> and \<open>Labels\<close>), the label
  numberer (\<open>Label\<close>) and \<open>maxFeatures\<close>. The collaborators are parameters.
\<close>

record 'v HashingSVMGuide =
  GenerateHashed :: "Configuration \<Rightarrow> FeatureValue list"
  PredictDecisionValuesSlice :: "FeatureValue list \<Rightarrow> 'v list"
  Labels :: "int list"
  Label :: "int \<Rightarrow> as_transition"
  maxFeatures :: "64 word"

definition HashingSVMGuide_BestTransition ::
  "('v::linorder) HashingSVMGuide \<Rightarrow> Configuration \<Rightarrow> panic + as_transition option" where
  "HashingSVMGuide_BestTransition g configuration =
     (case boundFeatures (maxFeatures g) (GenerateHashed g configuration) of
        Inl p \<Rightarrow> Inl p
      | Inr x \<Rightarrow>
          let values = PredictDecisionValuesSlice g x;
              labels = Labels g
          in selectLoop (Label g) labels configuration 0 values None None)"

section \<open>Example inputs\<close>

text \<open>
  A configuration over nine tokens and the root, with stack \<open>[0, 5, 7]\<close> (top 7) and
  buffer \<open>[9, 8]\<close> (front 9).
\<close>

definition exampleConfiguration :: Configuration where
  "exampleConfiguration =
     \<lparr>Tokens = [''ROOT'', ''a'', ''b'', ''c'', ''d'', ''e'', ''f'', ''g'', ''h'', ''i''],
      Tags = [''ROOT'', ''A'', ''B'', ''C'', ''D'', ''E'', ''F'', ''G'', ''H'', ''I''],
      Features = [], Stack = [0, 5, 7], Buffer = [9, 8], Arcs = {}\<rparr>"

text \<open>
  The gold tree of a sentence \<open>A B C\<close> with arcs \<open>(ROOT, root, B)\<close>, \<open>(B, nsubj, A)\<close>,
  \<open>(B, obj, C)\<close> as a dependent-to-dependency mapping, a configuration in the middle of
  its parse, and the configuration with the root on the stack and the three tokens in
  the buffer.
\<close>

definition exampleGold :: "nat \<rightharpoonup> Dependency" where
  "exampleGold =
     [1 \<mapsto> \<lparr>Head = 2, Relation = ''nsubj'', Dependent = 1\<rparr>,
      2 \<mapsto> \<lparr>Head = 0, Relation = ''root'', Dependent = 2\<rparr>,
      3 \<mapsto> \<lparr>Head = 2, Relation = ''obj'', Dependent = 3\<rparr>]"

definition exampleOracleConfiguration :: Configuration where
  "exampleOracleConfiguration =
     \<lparr>Tokens = [''ROOT'', ''A'', ''B'', ''C''], Tags = [''ROOT'', ''a'', ''b'', ''c''],
      Features = [], Stack = [0, 2], Buffer = [3],
      Arcs = {\<lparr>Head = 2, Relation = ''nsubj'', Dependent = 1\<rparr>}\<rparr>"

definition exampleInitialConfiguration :: Configuration where
  "exampleInitialConfiguration =
     \<lparr>Tokens = [''ROOT'', ''A'', ''B'', ''C''], Tags = [''ROOT'', ''a'', ''b'', ''c''],
      Features = [], Stack = [0], Buffer = [1, 2, 3], Arcs = {}\<rparr>"

text \<open>
  Configuration queries that know no dependents and no heads, and an addressed value of
  the \<open>FEATURE\<close> layer with an empty address.
\<close>

definition exampleQueries :: ConfigurationQueries where
  "exampleQueries =
     \<lparr>LeftmostDependent = (\<lambda>c token k. None),
      RightmostDependent = (\<lambda>c token k. None),
      HeadOf = (\<lambda>c token. None)\<rparr>"

definition exampleFeatureAddress :: AddressedValue where
  "exampleFeatureAddress = \<lparr>Address = [], Layer = FEATURE, LayerArg = ''x'', Value = ''y''\<rparr>"

text \<open>
  A guide whose model gives the decision values \<open>[1, 2, 2]\<close> to the labels numbered
  \<open>[7, 3, 5]\<close>, which stand for \<open>LeftArc(det)\<close>, \<open>Shift\<close> and \<open>RightArc(obj)\<close>.
\<close>

definition tieGuide :: "int HashingSVMGuide" where
  "tieGuide =
     \<lparr>GenerateHashed = (\<lambda>c. []),
      PredictDecisionValuesSlice = (\<lambda>x. [1, 2, 2]),
      Labels = [7, 3, 5],
      Label = (\<lambda>n. if n = 7 then asLeftArc ''det''
                    else if n = 5 then asRightArc ''obj'' else asShift),
      maxFeatures = 1000\<rparr>"

section \<open>Properties of the transition system\<close>

text \<open>
  C1: applying \<open>RightArc(rel)\<close> to a configuration with non-empty stack and non-empty
  buffer succeeds, adds the dependency with the stack top as head, \<open>rel\<close> as relation and
  the buffer front as dependent, pops the stack top, and puts the popped stack top in
  place of the buffer front; the buffer keeps its length and the rest of the
  configuration is unchanged.
\<close>

theorem RightArc_Apply:
  assumes "Stack c \<noteq> []" and "Buffer c \<noteq> []"
  shows "\<exists>c'. Apply (asRightArc rel) c = Inr c'
           \<and> Dependencies c' =
               insert \<lparr>Head = last (Stack c), Relation = rel, Dependent = hd (Buffer c)\<rparr>
                 (Dependencies c)
           \<and> Stack c' = butlast (Stack c)
           \<and> Buffer c' = last (Stack c) # tl (Buffer c)
           \<and> length (Buffer c') = length (Buffer c)
           \<and> Tokens c' = Tokens c \<and> Tags c' = Tags c \<and> Features c' = Features c"
  using assms
  by (cases "Buffer c")
     (auto simp: Let_def AddDependency_def Dependencies_def last_conv_nth hd_conv_nth
        butlast_conv_take)

theorem RightArc_Apply_witness:
  "Stack exampleConfiguration \<noteq> [] \<and> Buffer exampleConfiguration \<noteq> []
   \<and> Apply (asRightArc ''obj'') exampleConfiguration =
       Inr (exampleConfiguration
             \<lparr>Stack := [0, 5], Buffer := [7, 8],
              Arcs := {\<lparr>Head = 7, Relation = ''obj'', Dependent = 9\<rparr>}\<rparr>)"
  using RightArc_Apply [of exampleConfiguration "''obj''"]
  by (simp add: exampleConfiguration_def AddDependency_def Dependencies_def)

lemma SplitN2_keyword:
  assumes "CHR '' '' \<notin> set k"
  shows "SplitN2 (k @ CHR '' '' # rest) = [k, rest]"
  using assms
  by (simp add: SplitN2_def takeWhile_append dropWhile_append
        takeWhile_eq_all_conv [THEN iffD2] dropWhile_eq_Nil_conv [THEN iffD2])

text \<open>
  C5: for every arc-standard transition \<open>t\<close> (\<open>Shift\<close>, \<open>LeftArc(rel)\<close>, \<open>RightArc(rel)\<close>
  for any relation string, the empty one and those with spaces included),
  \<open>SerializeTransition\<close> succeeds and \<open>DeserializeTransition\<close> of its result succeeds
  and returns \<open>t\<close>.
\<close>

theorem Serialize_Deserialize_roundtrip:
  "\<exists>s. SerializeTransition (ArcStandardTransition t) = Inr s
       \<and> DeserializeTransition s = Inr (ArcStandardTransition t)"
proof (cases t)
  case asShift
  then show ?thesis
    by (simp add: SerializeTransition_def DeserializeTransition_def SplitN2_def)
next
  case (asLeftArc rel)
  have "SplitN2 (''LEFT_ARC'' @ CHR '' '' # rel) = [''LEFT_ARC'', rel]"
    by (rule SplitN2_keyword) simp
  with asLeftArc show ?thesis
    by (simp add: SerializeTransition_def DeserializeTransition_def)
next
  case (asRightArc rel)
  have "SplitN2 (''RIGHT_ARC'' @ CHR '' '' # rel) = [''RIGHT_ARC'', rel]"
    by (rule SplitN2_keyword) simp
  with asRightArc show ?thesis
    by (simp add: SerializeTransition_def DeserializeTransition_def)
qed

text \<open>
  C6: a configuration is terminal exactly when its buffer is empty, \<open>Shift\<close> is legal
  exactly when the buffer is non-empty, and so for every configuration that is not
  terminal \<open>PossibleTransitions\<close> contains \<open>Shift\<close> and is non-empty.
\<close>

theorem PossibleTransitions_nonempty:
  "(IsTerminal c \<longleftrightarrow> Buffer c = [])
   \<and> (IsPossible asShift c \<longleftrightarrow> Buffer c \<noteq> [])
   \<and> (\<not> IsTerminal c \<longrightarrow> asShift \<in> PossibleTransitions c \<and> PossibleTransitions c \<noteq> {})"
  by (auto simp: IsTerminal_def PossibleTransitions_def archetypeTransitions_def)

theorem PossibleTransitions_nonempty_witness:
  "\<not> IsTerminal exampleConfiguration
   \<and> PossibleTransitions exampleConfiguration
       = {asShift, asLeftArc ''<archetype>'', asRightArc ''<archetype>''}"
  using PossibleTransitions_nonempty [of exampleConfiguration]
  by (auto simp: exampleConfiguration_def IsTerminal_def PossibleTransitions_def
        archetypeTransitions_def)

section \<open>Properties of the oracle\<close>

lemma neededForAttachmentLoop_iff:
  "neededForAttachmentLoop m xs token \<longleftrightarrow> (\<exists>x \<in> set xs. Head (mapIndex m x) = token)"
  by (induction xs) auto

text \<open>
  C10: for every configuration whose buffer is non-empty, \<open>ArcStandardOracle.BestTransition\<close>
  returns (it does not panic) a transition that is legal in that configuration.
\<close>

theorem Oracle_BestTransition_legal:
  assumes "Buffer c \<noteq> []"
  shows "\<exists>t. ArcStandardOracle_BestTransition m c = Inr t \<and> IsPossible t c"
  using assms by (simp add: ArcStandardOracle_BestTransition_def Let_def)

theorem Oracle_BestTransition_legal_witness:
  "Buffer exampleOracleConfiguration \<noteq> []
   \<and> ArcStandardOracle_BestTransition exampleGold exampleOracleConfiguration
       = Inr (asRightArc ''obj'')
   \<and> IsPossible (asRightArc ''obj'') exampleOracleConfiguration"
  using Oracle_BestTransition_legal [of exampleOracleConfiguration exampleGold]
  by (simp add: ArcStandardOracle_BestTransition_def exampleOracleConfiguration_def
        exampleGold_def mapIndex_def neededForAttachment_def Let_def)

text \<open>
  C2: with \<open>gold\<close> the lookup in the gold mapping, \<open>s\<close> the stack top and \<open>b\<close> the buffer
  front: when the stack is empty the oracle returns \<open>Shift\<close>; for a non-terminal
  configuration with non-empty stack it returns \<open>LeftArc(gold(s).relation)\<close> if \<open>LeftArc\<close>
  is legal and \<open>gold(s).head = b\<close>; else \<open>RightArc(gold(b).relation)\<close> if \<open>RightArc\<close> is
  legal, \<open>gold(b).head = s\<close> and no token in the buffer has \<open>b\<close> as its gold head; else
  \<open>Shift\<close>.
\<close>

theorem Oracle_BestTransition_precedence:
  fixes m :: "nat \<rightharpoonup> Dependency" and c :: Configuration
  defines "gold \<equiv> mapIndex m"
  defines "s \<equiv> last (Stack c)"
  defines "b \<equiv> hd (Buffer c)"
  shows "(Stack c = [] \<longrightarrow> ArcStandardOracle_BestTransition m c = Inr asShift)
       \<and> (Stack c \<noteq> [] \<and> Buffer c \<noteq> [] \<longrightarrow>
            ArcStandardOracle_BestTransition m c =
              Inr (if IsPossible (asLeftArc (Relation (gold s))) c \<and> Head (gold s) = b
                   then asLeftArc (Relation (gold s))
                   else if IsPossible (asRightArc (Relation (gold b))) c \<and> Head (gold b) = s
                           \<and> \<not> (\<exists>x \<in> set (Buffer c). Head (gold x) = b)
                        then asRightArc (Relation (gold b))
                        else asShift))"
  unfolding gold_def s_def b_def
  by (simp add: ArcStandardOracle_BestTransition_def Let_def neededForAttachment_def
        neededForAttachmentLoop_iff last_conv_nth hd_conv_nth)

theorem Oracle_BestTransition_precedence_witness:
  "Stack exampleOracleConfiguration \<noteq> [] \<and> Buffer exampleOracleConfiguration \<noteq> []
   \<and> ArcStandardOracle_BestTransition exampleGold exampleOracleConfiguration
       = Inr (asRightArc ''obj'')
   \<and> ArcStandardOracle_BestTransition exampleGold (exampleOracleConfiguration\<lparr>Stack := []\<rparr>)
       = Inr asShift"
  using Oracle_BestTransition_precedence [of exampleOracleConfiguration exampleGold]
    Oracle_BestTransition_precedence [of "exampleOracleConfiguration\<lparr>Stack := []\<rparr>" exampleGold]
  by (simp add: exampleOracleConfiguration_def exampleGold_def mapIndex_def)

section \<open>Properties of the greedy parser\<close>

lemma Apply_measure_of:
  assumes "Apply t c = Inr c'"
  shows "Suc (measure_of c') = measure_of c"
  using assms
  by (cases t; cases "Buffer c")
     (auto simp: measure_of_def AddDependency_def Let_def split: if_splits)

lemma IsPossible_Apply:
  assumes "IsPossible t c"
  shows "\<exists>c'. Apply t c = Inr c'"
  using assms by (cases t) (auto simp: Let_def)

lemma parseLoop_step:
  assumes "\<not> IsTerminal c" and "guide c = Inr (Some t)" and "Apply t c = Inr c'"
  shows "parseLoop guide c n = parseLoop guide c' (Suc n)"
  using assms by (subst parseLoop.simps) simp

lemma parseLoop_stop:
  assumes "IsTerminal c"
  shows "parseLoop guide c n = Inr (c, n)"
  using assms by (subst parseLoop.simps) simp

lemma parseLoop_terminal:
  assumes legal: "\<forall>c. \<not> IsTerminal c \<longrightarrow> (\<exists>t. guide c = Inr (Some t) \<and> IsPossible t c)"
  shows "\<exists>c' k. parseLoop guide c n = Inr (c', n + k) \<and> IsTerminal c'
           \<and> k + measure_of c' = measure_of c"
proof (induction "measure_of c" arbitrary: c n rule: less_induct)
  case less
  show ?case
  proof (cases "IsTerminal c")
    case True
    then show ?thesis by (simp add: parseLoop_stop)
  next
    case False
    with legal obtain t where t: "guide c = Inr (Some t)" "IsPossible t c"
      by blast
    from IsPossible_Apply [OF t(2)] obtain c1 where c1: "Apply t c = Inr c1"
      by blast
    have m: "Suc (measure_of c1) = measure_of c"
      by (rule Apply_measure_of [OF c1])
    then have "measure_of c1 < measure_of c"
      by simp
    from less [OF this, of "Suc n"] obtain c' k where
      k: "parseLoop guide c1 (Suc n) = Inr (c', Suc n + k)" "IsTerminal c'"
         "k + measure_of c' = measure_of c1"
      by blast
    have "parseLoop guide c n = parseLoop guide c1 (Suc n)"
      using False t(1) c1 by (rule parseLoop_step)
    with k m have "parseLoop guide c n = Inr (c', n + Suc k) \<and> IsTerminal c'
        \<and> Suc k + measure_of c' = measure_of c"
      by simp
    then show ?thesis by blast
  qed
qed

lemma oracleGuide_legal:
  "\<forall>c. \<not> IsTerminal c \<longrightarrow> (\<exists>t. oracleGuide m c = Inr (Some t) \<and> IsPossible t c)"
  by (simp add: oracleGuide_def ArcStandardOracle_BestTransition_def IsTerminal_def Let_def)

lemmas oracle_eval =
  oracleGuide_def ArcStandardOracle_BestTransition_def IsTerminal_def
  exampleInitialConfiguration_def exampleGold_def mapIndex_def zeroDependency_def
  neededForAttachment_def AddDependency_def Let_def

text \<open>
  The oracle-driven parse of \<open>A B C\<close>: \<open>Shift\<close>, \<open>LeftArc(nsubj)\<close>, \<open>Shift\<close>,
  \<open>RightArc(obj)\<close>, \<open>RightArc(root)\<close>, \<open>Shift\<close>. It ends after six transitions with the
  three gold arcs.
\<close>

lemma oracle_parse_example:
  "parseLoop (oracleGuide exampleGold) exampleInitialConfiguration 0
     = Inr (exampleInitialConfiguration
             \<lparr>Stack := [0], Buffer := [],
              Arcs := {\<lparr>Head = 0, Relation = ''root'', Dependent = 2\<rparr>,
                       \<lparr>Head = 2, Relation = ''obj'', Dependent = 3\<rparr>,
                       \<lparr>Head = 2, Relation = ''nsubj'', Dependent = 1\<rparr>}\<rparr>, 6)"
proof -
  let ?g = "oracleGuide exampleGold"
  let ?c = exampleInitialConfiguration
  let ?nsubj = "\<lparr>Head = 2, Relation = ''nsubj'', Dependent = 1\<rparr>"
  let ?obj = "\<lparr>Head = 2, Relation = ''obj'', Dependent = 3\<rparr>"
  let ?root = "\<lparr>Head = 0, Relation = ''root'', Dependent = 2\<rparr>"
  have "parseLoop ?g ?c 0 = parseLoop ?g (?c\<lparr>Stack := [0, 1], Buffer := [2, 3]\<rparr>) 1"
    unfolding One_nat_def
    by (rule parseLoop_step [where t = asShift]) (simp_all add: oracle_eval)
  also have "\<dots> = parseLoop ?g (?c\<lparr>Stack := [0], Buffer := [2, 3], Arcs := {?nsubj}\<rparr>) 2"
    unfolding One_nat_def numeral_2_eq_2
    by (rule parseLoop_step [where t = "asLeftArc ''nsubj''"]) (simp_all add: oracle_eval)
  also have "\<dots> = parseLoop ?g (?c\<lparr>Stack := [0, 2], Buffer := [3], Arcs := {?nsubj}\<rparr>) 3"
    unfolding numeral_3_eq_3 numeral_2_eq_2
    by (rule parseLoop_step [where t = asShift]) (simp_all add: oracle_eval)
  also have "\<dots> = parseLoop ?g (?c\<lparr>Stack := [0], Buffer := [2], Arcs := {?obj, ?nsubj}\<rparr>) (Suc 3)"
    by (rule parseLoop_step [where t = "asRightArc ''obj''"]) (simp_all add: oracle_eval)
  also have "\<dots> = parseLoop ?g (?c\<lparr>Stack := [], Buffer := [0], Arcs := {?root, ?obj, ?nsubj}\<rparr>)
      (Suc (Suc 3))"
    by (rule parseLoop_step [where t = "asRightArc ''root''"]) (simp_all add: oracle_eval)
  also have "\<dots> = parseLoop ?g (?c\<lparr>Stack := [0], Buffer := [], Arcs := {?root, ?obj, ?nsubj}\<rparr>)
      (Suc (Suc (Suc 3)))"
    by (rule parseLoop_step [where t = asShift]) (simp_all add: oracle_eval)
  also have "\<dots> = Inr (?c\<lparr>Stack := [0], Buffer := [], Arcs := {?root, ?obj, ?nsubj}\<rparr>, 6)"
    by (subst parseLoop_stop) (simp_all add: oracle_eval)
  finally show ?thesis .
qed

text \<open>
  C9: if the guide returns, at every non-terminal configuration, a transition that is
  legal there, then from every configuration the parsing loop reaches a terminal
  configuration after at most \<open>2 * |Buffer| + |Stack|\<close> applied transitions; from a
  configuration with at most the root on the stack and at most \<open>n + 1\<close> buffer elements
  these are at most \<open>2 * n + 3\<close> transitions, linear in the sentence length \<open>n\<close>; and
  \<open>parseConfiguration\<close> returns the dependencies accumulated in the terminal
  configuration. Every transition that applies strictly decreases
  \<open>2 * |Buffer| + |Stack|\<close>.
\<close>

theorem parseConfiguration_terminates:
  assumes legal: "\<forall>c. \<not> IsTerminal c \<longrightarrow> (\<exists>t. guide c = Inr (Some t) \<and> IsPossible t c)"
  shows "(\<exists>c' k. parseLoop guide c 0 = Inr (c', k) \<and> IsTerminal c'
            \<and> k \<le> 2 * length (Buffer c) + length (Stack c)
            \<and> (\<forall>n. length (Stack c) \<le> 1 \<and> length (Buffer c) \<le> Suc n \<longrightarrow> k \<le> 2 * n + 3)
            \<and> parseConfiguration guide c = Inr (Dependencies c'))
       \<and> (\<forall>t d d'. Apply t d = Inr d' \<longrightarrow>
            2 * length (Buffer d') + length (Stack d') < 2 * length (Buffer d) + length (Stack d))"
proof
  from parseLoop_terminal [OF legal, of c 0] obtain c' k where
    k: "parseLoop guide c 0 = Inr (c', k)" "IsTerminal c'" "k + measure_of c' = measure_of c"
    by auto
  then have bound: "k \<le> 2 * length (Buffer c) + length (Stack c)"
    by (simp add: measure_of_def)
  then have "\<forall>n. length (Stack c) \<le> 1 \<and> length (Buffer c) \<le> Suc n \<longrightarrow> k \<le> 2 * n + 3"
    by auto
  moreover have "parseConfiguration guide c = Inr (Dependencies c')"
    using k(1) by (simp add: parseConfiguration_def)
  ultimately show "\<exists>c' k. parseLoop guide c 0 = Inr (c', k) \<and> IsTerminal c'
            \<and> k \<le> 2 * length (Buffer c) + length (Stack c)
            \<and> (\<forall>n. length (Stack c) \<le> 1 \<and> length (Buffer c) \<le> Suc n \<longrightarrow> k \<le> 2 * n + 3)
            \<and> parseConfiguration guide c = Inr (Dependencies c')"
    using k bound by blast
next
  show "\<forall>t d d'. Apply t d = Inr d' \<longrightarrow>
            2 * length (Buffer d') + length (Stack d') < 2 * length (Buffer d) + length (Stack d)"
    using Apply_measure_of by (fastforce simp: measure_of_def)
qed

theorem parseConfiguration_terminates_witness:
  "parseLoop (oracleGuide exampleGold) exampleInitialConfiguration 0
     = Inr (exampleInitialConfiguration
             \<lparr>Stack := [0], Buffer := [],
              Arcs := {\<lparr>Head = 0, Relation = ''root'', Dependent = 2\<rparr>,
                       \<lparr>Head = 2, Relation = ''obj'', Dependent = 3\<rparr>,
                       \<lparr>Head = 2, Relation = ''nsubj'', Dependent = 1\<rparr>}\<rparr>, 6)
   \<and> 6 \<le> 2 * length (Buffer exampleInitialConfiguration)
           + length (Stack exampleInitialConfiguration)
   \<and> parseConfiguration (oracleGuide exampleGold) exampleInitialConfiguration
       = Inr {\<lparr>Head = 0, Relation = ''root'', Dependent = 2\<rparr>,
              \<lparr>Head = 2, Relation = ''obj'', Dependent = 3\<rparr>,
              \<lparr>Head = 2, Relation = ''nsubj'', Dependent = 1\<rparr>}"
  using oracle_parse_example
    parseConfiguration_terminates [OF oracleGuide_legal, of exampleGold exampleInitialConfiguration]
  by (simp add: exampleInitialConfiguration_def Dependencies_def)

section \<open>Properties of addressed values\<close>

text \<open>
  C8: for an address whose first component is \<open>STACK\<close> (resp. \<open>BUFFER\<close>) with offset \<open>k\<close>:
  if \<open>k\<close> is at least the number of stack (buffer) elements, \<open>Get\<close> returns the
  unavailable outcome \<open>("", false)\<close>, whatever follows in the address and whatever the
  layer, and not a panic; otherwise the component resolves to the token \<open>k\<close> positions
  from the stack top (buffer front), offset 0 being the nearest, and with the layer
  \<open>TOKEN\<close> and no further component \<open>Get\<close> returns that token's form.
\<close>

theorem Get_STACK_BUFFER:
  fixes a :: AddressedValue
  shows
    "(length (Stack c) \<le> k \<longrightarrow>
        Get q (a\<lparr>Address := \<lparr>Source = STACK, Index = k\<rparr> # rest\<rparr>) c = Inr ([], False))
   \<and> (length (Buffer c) \<le> k \<longrightarrow>
        Get q (a\<lparr>Address := \<lparr>Source = BUFFER, Index = k\<rparr> # rest\<rparr>) c = Inr ([], False))
   \<and> (k < length (Stack c) \<longrightarrow>
        resolveAddress q c 0 0 (\<lparr>Source = STACK, Index = k\<rparr> # rest)
          = resolveAddress q c 1 (rev (Stack c) ! k) rest)
   \<and> (k < length (Buffer c) \<longrightarrow>
        resolveAddress q c 0 0 (\<lparr>Source = BUFFER, Index = k\<rparr> # rest)
          = resolveAddress q c 1 (Buffer c ! k) rest)
   \<and> (k < length (Stack c) \<and> rev (Stack c) ! k < length (Tokens c) \<longrightarrow>
        Get q (a\<lparr>Address := [\<lparr>Source = STACK, Index = k\<rparr>], Layer := TOKEN\<rparr>) c
          = Inr (Tokens c ! (rev (Stack c) ! k), True))
   \<and> (k < length (Buffer c) \<and> Buffer c ! k < length (Tokens c) \<longrightarrow>
        Get q (a\<lparr>Address := [\<lparr>Source = BUFFER, Index = k\<rparr>], Layer := TOKEN\<rparr>) c
          = Inr (Tokens c ! (Buffer c ! k), True))"
  by (simp add: Get_def Let_def rev_nth)

theorem Get_STACK_BUFFER_witness:
  "Get exampleQueries
     \<lparr>Address = [\<lparr>Source = STACK, Index = 0\<rparr>], Layer = TOKEN, LayerArg = [], Value = []\<rparr>
     (exampleConfiguration\<lparr>Stack := [2, 5]\<rparr>) = Inr (''e'', True)
   \<and> Get exampleQueries
     \<lparr>Address = [\<lparr>Source = STACK, Index = 2\<rparr>], Layer = TOKEN, LayerArg = [], Value = []\<rparr>
     (exampleConfiguration\<lparr>Stack := [2, 5]\<rparr>) = Inr ([], False)
   \<and> Get exampleQueries
     \<lparr>Address = [\<lparr>Source = BUFFER, Index = 1\<rparr>], Layer = TOKEN, LayerArg = [], Value = []\<rparr>
     (exampleConfiguration\<lparr>Stack := [2, 5]\<rparr>) = Inr (''h'', True)"
  using Get_STACK_BUFFER [where c = "exampleConfiguration\<lparr>Stack := [2, 5]\<rparr>" and k = 0
      and q = exampleQueries and rest = "[]"
      and a = "\<lparr>Address = [], Layer = TOKEN, LayerArg = [], Value = []\<rparr>"]
    Get_STACK_BUFFER [where c = "exampleConfiguration\<lparr>Stack := [2, 5]\<rparr>" and k = 2
      and q = exampleQueries and rest = "[]"
      and a = "\<lparr>Address = [], Layer = TOKEN, LayerArg = [], Value = []\<rparr>"]
    Get_STACK_BUFFER [where c = "exampleConfiguration\<lparr>Stack := [2, 5]\<rparr>" and k = 1
      and q = exampleQueries and rest = "[]"
      and a = "\<lparr>Address = [], Layer = TOKEN, LayerArg = [], Value = []\<rparr>"]
  by (simp add: exampleConfiguration_def)

lemma foldl_Write_components:
  "foldl Write
     (foldl (\<lambda>h component. Write (Write h (f component)) (g component)) h comps) ws
   = foldl Write h (concat (map (\<lambda>component. [f component, g component]) comps) @ ws)"
  by (induction comps arbitrary: h) simp_all

text \<open>
  What \<open>appendHash\<close> writes, for every hash: for every address component in path order
  its source tag and its index, each as eight bytes; then the feature argument when the
  layer is \<open>FEATURE\<close>; then the layer tag as eight bytes; then the value.
\<close>

lemma appendHash_writes_eq:
  "appendHash Write hash a = foldl Write hash (appendHash_writes a)"
proof -
  let ?f = "\<lambda>component. PutUint64 (word_of_int (Source component))"
  let ?g = "\<lambda>component. PutUint64 (word_of_nat (Index component))"
  have "foldl (\<lambda>h component. Write (Write h (?f component)) (?g component)) hash (Address a)
        = foldl Write hash (concat (map (\<lambda>component. [?f component, ?g component]) (Address a)))"
    using foldl_Write_components [of Write ?f ?g hash "Address a" "[]"] by simp
  then show ?thesis
    by (simp add: appendHash_def appendHash_writes_def Let_def)
qed

text \<open>For every layer but \<open>FEATURE\<close> this is the specified order.\<close>

lemma appendHash_spec_order_other_layers:
  assumes "Layer a \<noteq> FEATURE"
  shows "appendHash Write hash a = foldl Write hash (appendHash_spec_order a)"
  using assms appendHash_writes_eq [of Write hash a]
  by (simp add: appendHash_writes_def appendHash_spec_order_def)

text \<open>
  C4: the specified order of writes is the address components, the layer tag, the
  feature argument when the layer is \<open>FEATURE\<close>, the value; \<open>appendFeature\<close> prints the
  fields in that order too. \<open>appendHash\<close> fills \<open>buf\<close> with the layer tag before it
  tests for \<open>FEATURE\<close> but writes \<open>buf\<close> after it, so for a \<open>FEATURE\<close> value the
  argument reaches the hash before the layer tag. For the value with empty address,
  layer \<open>FEATURE\<close>, argument \<open>x\<close> and value \<open>y\<close> the code writes \<open>x\<close>, the layer tag 3,
  \<open>y\<close>, where the specified order is the layer tag 3, \<open>x\<close>, \<open>y\<close>; the bytes fed to the
  hash are \<open>78 03 00 00 00 00 00 00 00 79\<close> and not \<open>03 00 00 00 00 00 00 00 78 79\<close>.
\<close>

theorem appendHash_FEATURE_argument_before_layer:
  "appendHash (\<lambda>h bs. h @ [bs]) [] exampleFeatureAddress
     = [bytes ''x'', PutUint64 3, bytes ''y'']
   \<and> appendHash_spec_order exampleFeatureAddress = [PutUint64 3, bytes ''x'', bytes ''y'']
   \<and> appendHash (\<lambda>h bs. h @ bs) [] exampleFeatureAddress
       = [0x78, 3, 0, 0, 0, 0, 0, 0, 0, 0x79]
   \<and> foldl (\<lambda>h bs. h @ bs) [] (appendHash_spec_order exampleFeatureAddress)
       = [3, 0, 0, 0, 0, 0, 0, 0, 0x78, 0x79]"
  by (simp add: appendHash_def appendHash_spec_order_def exampleFeatureAddress_def
        bytes_def PutUint64_def upt_conv_Cons Let_def)

section \<open>Properties of the hashing guide\<close>

lemma smod_nonneg: "0 \<le> (x::int) \<Longrightarrow> x smod m = x mod \<bar>m\<bar>"
  by (cases "x = 0") (simp_all add: smod_int_alt_def)

lemma and_exp_eq_exp_iff_bit:
  fixes h :: "'a::len word"
  assumes "n < LENGTH('a)"
  shows "(h AND 2 ^ n = 2 ^ n) = bit h n"
proof
  assume "h AND 2 ^ n = 2 ^ n"
  then have "bit (h AND 2 ^ n) n = bit (2 ^ n :: 'a word) n"
    by (simp only:)
  then show "bit h n"
    using assms by (simp add: bit_and_iff bit_exp_iff)
next
  assume "bit h n"
  then show "h AND 2 ^ n = 2 ^ n"
    by (intro bit_word_eqI) (auto simp: bit_and_iff bit_exp_iff)
qed

lemma sign_bit_test: "((h :: 64 word) AND 0x80000000 = 0x80000000) = bit h 31"
  using and_exp_eq_exp_iff_bit [of 31 h] by simp

lemma signed_take_bit_63_self:
  assumes "0 \<le> k" and "k < 2 ^ 63"
  shows "signed_take_bit 63 (k::int) = k"
proof (rule signed_take_bit_int_eq_self)
  show "- (2 ^ 63) \<le> k" using assms(1) by simp
  show "k < 2 ^ 63" by (rule assms(2))
qed

lemma masked_bounds:
  fixes h :: "64 word"
  shows "sint (h AND 0x7fffffff) = uint (h AND 0x7fffffff)"
    and "uint (h AND 0x7fffffff) < 2 ^ 31"
proof -
  have "h AND 0x7fffffff \<le> 0x7fffffff"
    by (rule word_and_le1)
  then have "uint (h AND 0x7fffffff) \<le> 0x7fffffff"
    by (simp add: word_le_def)
  then show b: "uint (h AND 0x7fffffff) < 2 ^ 31"
    by simp
  have "sint (h AND 0x7fffffff) = signed_take_bit 63 (uint (h AND 0x7fffffff))"
    by (simp add: sint_uint)
  also have "\<dots> = uint (h AND 0x7fffffff)"
    using b by (intro signed_take_bit_63_self) simp_all
  finally show "sint (h AND 0x7fffffff) = uint (h AND 0x7fffffff)" .
qed

lemma sint_small:
  assumes "0 \<le> r" and "r < 2 ^ 31"
  shows "sint (word_of_int r + 1 :: 64 word) = r + 1"
proof -
  have a: "sint (word_of_int k :: 64 word) = signed_take_bit 63 k" for k
    by (simp add: sint_sbintrunc')
  have b: "(word_of_int r + 1 :: 64 word) = word_of_int (r + 1)"
    by simp
  have "sint (word_of_int r + 1 :: 64 word) = signed_take_bit 63 (r + 1)"
    unfolding b by (rule a)
  also have "\<dots> = r + 1"
    using assms by (intro signed_take_bit_63_self) simp_all
  finally show ?thesis .
qed

lemma sint_cases:
  fixes m :: "64 word"
  shows "(uint m < 2 ^ 63 \<and> sint m = uint m) \<or> (2 ^ 63 \<le> uint m \<and> sint m = uint m - 2 ^ 64)"
proof (cases "uint m < 2 ^ 63")
  case True
  have "sint m = signed_take_bit 63 (uint m)"
    by (simp add: sint_uint)
  also have "\<dots> = uint m"
    using True by (intro signed_take_bit_63_self) simp_all
  finally show ?thesis using True by simp
next
  case False
  have u: "uint m < 2 ^ 64"
    using uint_bounded [of m] by simp
  have "sint m = signed_take_bit 63 (uint m)"
    by (simp add: sint_uint)
  also have "\<dots> = signed_take_bit 63 (uint m - 2 ^ 64)"
    by (simp add: signed_take_bit_eq_iff_take_bit_eq take_bit_eq_mod) 
  also have "\<dots> = uint m - 2 ^ 64"
    using False u by (intro signed_take_bit_int_eq_self) simp_all
  finally show ?thesis using False by simp
qed

text \<open>
  C7, as amended: for every raw hash \<open>h\<close> and every bound \<open>M \<ge> 1\<close> the bounding succeeds
  and the index lies in \<open>[1, M]\<close>; for every bound \<open>M\<close> with \<open>1 \<le> M \<le> 2^64 - 2^31\<close>, so for
  every bound that fits a non-negative \<open>int\<close>, the index is
  \<open>((h AND 0x7fffffff) mod M) + 1\<close>; and the value is multiplied by -1 exactly when
  bit 31 of \<open>h\<close> is set, otherwise by 1.
\<close>

theorem boundFeature_index:
  assumes "M \<noteq> 0"
  shows "\<exists>fv'. boundFeature M fv = Inr fv'
           \<and> 1 \<le> sint (fvIndex fv') \<and> sint (fvIndex fv') \<le> uint M
           \<and> (uint M \<le> 2 ^ 64 - 2 ^ 31 \<longrightarrow>
                sint (fvIndex fv')
                  = uint (fvIndex fv AND 0x7fffffff) mod uint M + 1)
           \<and> fvValue fv' = (if bit (fvIndex fv) 31 then - 1 else 1) * fvValue fv"
proof -
  define x where "x = uint (fvIndex fv AND 0x7fffffff)"
  define m where "m = sint M"
  define r where "r = x smod m"
  have x: "0 \<le> x" "x < 2 ^ 31" "sint (fvIndex fv AND 0x7fffffff) = x"
    using masked_bounds [of "fvIndex fv"] by (simp_all add: x_def)
  have "uint M \<noteq> 0"
    using assms by (simp add: uint_0_iff)
  with uint_ge_0 [of M] have Mpos: "0 < uint M"
    by linarith
  have r_mod: "r = x mod \<bar>m\<bar>"
    using x(1) by (simp add: r_def smod_nonneg)
  have m0: "m \<noteq> 0"
    using sint_cases [of M] Mpos uint_bounded [of M] by (auto simp: m_def)
  have r: "0 \<le> r" "r \<le> x" "r < \<bar>m\<bar>"
    using m0 x(1) by (simp_all add: r_mod zmod_le_nonneg_dividend)
  have idx: "sint (int_rem (fvIndex fv AND 0x7fffffff) M + 1) = r + 1"
    using sint_small [of r] r x by (simp add: int_rem_def r_def m_def)
  have range: "r + 1 \<le> uint M"
    using sint_cases [of M] r x by (auto simp: m_def)
  have formula: "r = x mod uint M" if "uint M \<le> 2 ^ 64 - 2 ^ 31"
  proof -
    from sint_cases [of M] show ?thesis
    proof
      assume "uint M < 2 ^ 63 \<and> sint M = uint M"
      then show ?thesis using Mpos by (simp add: r_mod m_def)
    next
      assume a: "2 ^ 63 \<le> uint M \<and> sint M = uint M - 2 ^ 64"
      then have "\<bar>m\<bar> = 2 ^ 64 - uint M"
        using uint_bounded [of M] by (simp add: m_def)
      then have "x < \<bar>m\<bar>" using that x(2) by simp
      then have "r = x" using x(1) by (simp add: r_mod)
      moreover have "x mod uint M = x"
        using a x by simp
      ultimately show ?thesis by simp
    qed
  qed
  show ?thesis
    using assms idx r(1) range formula
    by (simp add: boundFeature_def sign_bit_test x_def Let_def)
qed

theorem boundFeature_index_witness:
  "boundFeature 1000 \<lparr>fvIndex = 0x80000005, fvValue = 2\<rparr> = Inr \<lparr>fvIndex = 6, fvValue = - 2\<rparr>
   \<and> boundFeature 4 \<lparr>fvIndex = 7, fvValue = 2\<rparr> = Inr \<lparr>fvIndex = 4, fvValue = 2\<rparr>"
  using boundFeature_index [of 1000 "\<lparr>fvIndex = 0x80000005, fvValue = 2\<rparr>"]
    boundFeature_index [of 4 "\<lparr>fvIndex = 7, fvValue = 2\<rparr>"]
  by (simp add: boundFeature_def int_rem_def smod_int_alt_def)

text \<open>
  With the bound \<open>2^64 - 1\<close> the conversion \<open>int(g.maxFeatures)\<close> is -1, the remainder is
  0 and the index 1, where \<open>((h AND 0x7fffffff) mod M) + 1\<close> is 6 for \<open>h = 5\<close>.
\<close>

theorem boundFeature_index_counterexample:
  "(18446744073709551615 :: 64 word) \<noteq> 0
   \<and> boundFeature 18446744073709551615 \<lparr>fvIndex = 5, fvValue = 1\<rparr>
       = Inr \<lparr>fvIndex = 1, fvValue = 1\<rparr>
   \<and> uint (5 AND 0x7fffffff :: 64 word) mod uint (18446744073709551615 :: 64 word) + 1 = 6"
  by (simp add: boundFeature_def int_rem_def smod_int_alt_def)

lemma selectLoop_keeps_best:
  assumes "idx + length vs \<le> length labels"
    and "\<forall>j<length vs. IsPossible (lab (labels ! (idx + j))) c \<longrightarrow> vs ! j < b"
  shows "selectLoop lab labels c idx vs (Some b) bl = Inr bl"
  using assms
proof (induction vs arbitrary: idx)
  case Nil
  then show ?case by simp
next
  case (Cons v rest)
  have rest: "\<forall>j<length rest. IsPossible (lab (labels ! (Suc idx + j))) c \<longrightarrow> rest ! j < b"
    using Cons.prems(2) by (metis Suc_less_eq add_Suc_shift length_Cons nth_Cons_Suc)
  have IH: "selectLoop lab labels c (Suc idx) rest (Some b) bl = Inr bl"
    using Cons.IH [of "Suc idx"] Cons.prems(1) rest by simp
  have head: "IsPossible (lab (labels ! idx)) c \<longrightarrow> v < b"
    using Cons.prems(2) by fastforce
  show ?case
    using IH head Cons.prems(1) by (auto simp: below_def Let_def)
qed

lemma selectLoop_last_maximum:
  assumes "idx + length vs \<le> length labels"
    and "i < length vs"
    and "IsPossible (lab (labels ! (idx + i))) c"
    and "\<forall>j<length vs. IsPossible (lab (labels ! (idx + j))) c \<longrightarrow> vs ! j \<le> vs ! i"
    and "\<forall>j<length vs. i < j \<longrightarrow> IsPossible (lab (labels ! (idx + j))) c \<longrightarrow> vs ! j < vs ! i"
    and "\<not> below (vs ! i) bestValue"
  shows "selectLoop lab labels c idx vs bestValue bestLabel
           = Inr (Some (lab (labels ! (idx + i))))"
  using assms
proof (induction vs arbitrary: idx i bestValue bestLabel)
  case Nil
  then show ?case by simp
next
  case (Cons v rest)
  show ?case
  proof (cases i)
    case 0
    have "\<forall>j<length rest. IsPossible (lab (labels ! (Suc idx + j))) c \<longrightarrow> rest ! j < v"
      using Cons.prems(5) 0 by fastforce
    then have "selectLoop lab labels c (Suc idx) rest (Some v) (Some (lab (labels ! idx)))
        = Inr (Some (lab (labels ! idx)))"
      using selectLoop_keeps_best [of "Suc idx" rest labels lab c v] Cons.prems(1) by simp
    then show ?thesis
      using 0 Cons.prems(1,3,6) by (simp add: Let_def)
  next
    case (Suc i')
    have len: "Suc idx + length rest \<le> length labels" "i' < length rest"
      using Cons.prems(1,2) Suc by simp_all
    have legal: "IsPossible (lab (labels ! (Suc idx + i'))) c"
      using Cons.prems(3) Suc by simp
    have le: "\<forall>j<length rest. IsPossible (lab (labels ! (Suc idx + j))) c
                \<longrightarrow> rest ! j \<le> rest ! i'"
      using Cons.prems(4) Suc by fastforce
    have lt: "\<forall>j<length rest. i' < j \<longrightarrow> IsPossible (lab (labels ! (Suc idx + j))) c
                \<longrightarrow> rest ! j < rest ! i'"
      using Cons.prems(5) Suc by fastforce
    have nb: "\<not> below (rest ! i') bestValue"
      using Cons.prems(6) Suc by simp
    have head: "IsPossible (lab (labels ! idx)) c \<longrightarrow> v \<le> rest ! i'"
      using Cons.prems(4) Suc by fastforce
    have keep: "selectLoop lab labels c (Suc idx) rest bestValue bestLabel
        = Inr (Some (lab (labels ! (idx + i))))"
      using Cons.IH [OF len legal le lt nb, of bestLabel] Suc by simp
    have upd: "IsPossible (lab (labels ! idx)) c \<Longrightarrow>
        selectLoop lab labels c (Suc idx) rest (Some v) (Some (lab (labels ! idx)))
        = Inr (Some (lab (labels ! (idx + i))))"
    proof -
      assume "IsPossible (lab (labels ! idx)) c"
      with head have "\<not> below (rest ! i') (Some v)"
        by (simp add: below_def)
      from Cons.IH [OF len legal le lt this, of "Some (lab (labels ! idx))"] Suc
      show ?thesis by simp
    qed
    show ?thesis
      using keep upd Cons.prems(1) by (auto simp: Let_def)
  qed
qed

text \<open>
  C3, as amended: when the bounding of the features does not panic and the model has a
  label for every decision value, \<open>HashingSVMGuide.BestTransition\<close> returns the legal
  label with the maximum decision value, and among several legal labels with that same
  maximum value the one that occurs last in the model's label enumeration order.
\<close>

theorem BestTransition_tie_last:
  fixes g :: "('v::linorder) HashingSVMGuide"
  assumes "boundFeatures (maxFeatures g) (GenerateHashed g c) = Inr x"
    and "vs = PredictDecisionValuesSlice g x"
    and "length vs \<le> length (Labels g)"
    and "i < length vs"
    and "IsPossible (Label g (Labels g ! i)) c"
    and "\<forall>j<length vs. IsPossible (Label g (Labels g ! j)) c \<longrightarrow> vs ! j \<le> vs ! i"
    and "\<forall>j<length vs. i < j \<longrightarrow> IsPossible (Label g (Labels g ! j)) c \<longrightarrow> vs ! j < vs ! i"
  shows "HashingSVMGuide_BestTransition g c = Inr (Some (Label g (Labels g ! i)))"
  using selectLoop_last_maximum [of 0 vs "Labels g" i "Label g" c None None] assms
  by (simp add: HashingSVMGuide_BestTransition_def below_def)

theorem BestTransition_tie_last_witness:
  "HashingSVMGuide_BestTransition tieGuide exampleConfiguration = Inr (Some (asRightArc ''obj''))"
proof -
  have "HashingSVMGuide_BestTransition tieGuide exampleConfiguration
      = Inr (Some (Label tieGuide (Labels tieGuide ! 2)))"
  proof (rule BestTransition_tie_last [where x = "[]" and vs = "[1, 2, 2]"])
    show "\<forall>j<length [1, 2, 2 :: int].
            IsPossible (Label tieGuide (Labels tieGuide ! j)) exampleConfiguration
            \<longrightarrow> [1, 2, 2 :: int] ! j \<le> [1, 2, 2] ! 2"
      by (simp add: less_Suc_eq numeral_3_eq_3 all_conj_distrib)
    show "\<forall>j<length [1, 2, 2 :: int]. 2 < j \<longrightarrow>
            IsPossible (Label tieGuide (Labels tieGuide ! j)) exampleConfiguration
            \<longrightarrow> [1, 2, 2 :: int] ! j < [1, 2, 2] ! 2"
      by simp
  qed (simp_all add: tieGuide_def exampleConfiguration_def)
  then show ?thesis
    by (simp add: tieGuide_def)
qed

text \<open>
  The labels at positions 1 and 2 are both legal and share the maximum value 2; the
  guide returns the label at position 2, not the first-seen one at position 1.
\<close>

theorem BestTransition_tie_first_counterexample:
  "PredictDecisionValuesSlice tieGuide [] = [1, 2, 2]
   \<and> IsPossible (Label tieGuide (Labels tieGuide ! 1)) exampleConfiguration
   \<and> IsPossible (Label tieGuide (Labels tieGuide ! 2)) exampleConfiguration
   \<and> HashingSVMGuide_BestTransition tieGuide exampleConfiguration
       = Inr (Some (Label tieGuide (Labels tieGuide ! 2)))
   \<and> HashingSVMGuide_BestTransition tieGuide exampleConfiguration
       \<noteq> Inr (Some (Label tieGuide (Labels tieGuide ! 1)))"
  by (simp add: HashingSVMGuide_BestTransition_def tieGuide_def exampleConfiguration_def
        below_def Let_def)

end
